theory Spec2Isabelle
  imports Main "HOL-Library.Word" "HOL-Library.Sublist"
begin

unbundle bit_operations_syntax

section \<open>Data model\<close>

text \<open>
  The model follows \<^verbatim>\<open>src/utils/crypto.js\<close>. A JavaScript string is a \<open>string\<close>,
  a list of 8-bit code units: this covers every token the encoder emits and every
  algorithm identifier, and plaintexts and passwords are taken over the same alphabet
  (how text becomes bytes, the \<^verbatim>\<open>'utf8'\<close> of the cipher calls, is the library's
  business). A \<^verbatim>\<open>Buffer\<close> is a list of bytes; a JavaScript number that carries a
  length or a count is an \<open>int\<close>. A \<^verbatim>\<open>throw\<close> is the left injection of a sum.
\<close>

type_synonym byte = "8 word"
type_synonym bytes = "byte list"

text \<open>
  What Node's \<^verbatim>\<open>crypto\<close> module throws: a GCM tag that does not verify, a CBC
  finalisation with bad padding, and every other failure (an argument out of range, an
  unknown cipher, a key or IV of the wrong size, an invalid tag length, ...).
\<close>

datatype lib_error = AuthenticationFailed | PaddingOrKeyError | OtherLibraryError

text \<open>
  The errors of the module itself, named as in the specification's taxonomy. Each stands
  for one \<^verbatim>\<open>throw new Error(...)\<close> of the source:
  \<^item> \<open>EmptyInput\<close>: \<^verbatim>\<open>'Text to encrypt cannot be empty'\<close>;
  \<^item> \<open>MalformedToken\<close>: \<^verbatim>\<open>'Invalid encrypted text format'\<close>;
  \<^item> \<open>MissingAuthTag\<close>: \<^verbatim>\<open>'Authentication tag is required for GCM decryption'\<close>;
  \<^item> \<open>InvalidAlgorithm\<close>: \<^verbatim>\<open>'Invalid encryption algorithm'\<close>;
  \<^item> \<open>KeyLengthMismatch\<close>: \<^verbatim>\<open>'... requires a ...-byte key length.'\<close>;
  \<^item> \<open>IVLengthMismatch\<close>: \<^verbatim>\<open>'... requires a ...-byte IV length.'\<close>;
  \<^item> \<open>LibraryFailure e\<close>: an exception of the crypto library, passed on unchanged.
\<close>

datatype error =
    EmptyInput
  | InvalidAlgorithm
  | KeyLengthMismatch
  | IVLengthMismatch
  | MalformedToken
  | MissingAuthTag
  | LibraryFailure lib_error

section \<open>Strings and buffers\<close>

text \<open>\<^verbatim>\<open>s.split(sep)\<close> for a one-character separator: never empty, \<^verbatim>\<open>''.split(':')\<close> is \<^verbatim>\<open>['']\<close>.\<close>

fun split :: "string \<Rightarrow> char \<Rightarrow> string list" where
  "split [] sep = [[]]"
| "split (c # cs) sep =
     (if c = sep then [] # split cs sep
      else (case split cs sep of [] \<Rightarrow> [[c]] | p # ps \<Rightarrow> (c # p) # ps))"

text \<open>\<^verbatim>\<open>s.includes(sub)\<close>: \<open>sub\<close> occurs in \<open>s\<close> as a contiguous run.\<close>

fun includes_str :: "string \<Rightarrow> string \<Rightarrow> bool" where
  "includes_str [] sub = (sub = [])"
| "includes_str (c # cs) sub = (prefix sub (c # cs) \<or> includes_str cs sub)"

text \<open>\<^verbatim>\<open>buf.toString('hex')\<close>: two lowercase digits per byte, high nibble first.\<close>

definition hex_digit :: "nat \<Rightarrow> char" where
  "hex_digit n = ''0123456789abcdef'' ! n"

definition toString_hex :: "bytes \<Rightarrow> string" where
  "toString_hex buf = concat (map (\<lambda>b. [hex_digit (unat b div 16), hex_digit (unat b mod 16)]) buf)"

text \<open>
  \<^verbatim>\<open>Buffer.from(s, 'hex')\<close>: digits of either case are read in pairs; decoding stops,
  without an error, at the first pair that is not two hexadecimal digits, and a trailing
  single character is dropped.
\<close>

definition unhex :: "char \<Rightarrow> nat option" where
  "unhex c =
     (let n = (of_char c :: nat) in
      if 48 \<le> n \<and> n \<le> 57 then Some (n - 48)
      else if 97 \<le> n \<and> n \<le> 102 then Some (n - 87)
      else if 65 \<le> n \<and> n \<le> 70 then Some (n - 55)
      else None)"

fun Buffer_from_hex :: "string \<Rightarrow> bytes" where
  "Buffer_from_hex (a # b # rest) =
     (case unhex a of
        None \<Rightarrow> []
      | Some x \<Rightarrow> (case unhex b of
                    None \<Rightarrow> []
                  | Some y \<Rightarrow> of_nat (16 * x + y) # Buffer_from_hex rest))"
| "Buffer_from_hex _ = []"

text \<open>A string of lowercase hexadecimal digits.\<close>

definition lowercase_hex :: "string \<Rightarrow> bool" where
  "lowercase_hex s = list_all (\<lambda>c. c \<in> set ''0123456789abcdef'') s"

section \<open>Parameter validation\<close>

text \<open>
  \<^verbatim>\<open>algorithmSpecs[algorithm]\<close> is a property read on an object literal. It finds the
  object's own six properties, and after them the properties every object inherits from
  \<^verbatim>\<open>Object.prototype\<close>: each of those is a function or an object, so it is truthy, and
  has neither a \<^verbatim>\<open>keyLength\<close> nor an \<^verbatim>\<open>ivLength\<close> property. Any other name reads
  \<^verbatim>\<open>undefined\<close>, here \<open>None\<close>.
\<close>

datatype spec_entry = Spec int int | Inherited

definition Object_prototype_names :: "string list" where
  "Object_prototype_names =
     [''constructor'', ''__defineGetter__'', ''__defineSetter__'', ''hasOwnProperty'',
      ''__lookupGetter__'', ''__lookupSetter__'', ''isPrototypeOf'',
      ''propertyIsEnumerable'', ''toString'', ''valueOf'', ''__proto__'',
      ''toLocaleString'']"

definition algorithmSpecs :: "string \<Rightarrow> spec_entry option" where
  "algorithmSpecs algorithm =
     (if algorithm = ''aes-256-cbc'' then Some (Spec 32 16)
      else if algorithm = ''aes-256-gcm'' then Some (Spec 32 12)
      else if algorithm = ''aes-128-gcm'' then Some (Spec 16 12)
      else if algorithm = ''aes-128-cbc'' then Some (Spec 16 16)
      else if algorithm = ''aes-192-cbc'' then Some (Spec 24 16)
      else if algorithm = ''aes-192-gcm'' then Some (Spec 24 12)
      else if algorithm \<in> set Object_prototype_names then Some Inherited
      else None)"

text \<open>\<^verbatim>\<open>spec.keyLength\<close> and \<^verbatim>\<open>spec.ivLength\<close>; \<open>None\<close> is \<^verbatim>\<open>undefined\<close>.\<close>

fun spec_keyLength :: "spec_entry \<Rightarrow> int option" where
  "spec_keyLength (Spec k i) = Some k"
| "spec_keyLength Inherited = None"

fun spec_ivLength :: "spec_entry \<Rightarrow> int option" where
  "spec_ivLength (Spec k i) = Some i"
| "spec_ivLength Inherited = None"

text \<open>
  \<^verbatim>\<open>validateAlgorithmParameters\<close>. The comparisons are \<^verbatim>\<open>!==\<close> between the number
  passed in and the property read, so a number never equals \<^verbatim>\<open>undefined\<close>.
\<close>

definition validateAlgorithmParameters :: "string \<Rightarrow> int \<Rightarrow> int \<Rightarrow> error + unit" where
  "validateAlgorithmParameters algorithm keyLength ivLength =
     (case algorithmSpecs algorithm of
        None \<Rightarrow> Inl InvalidAlgorithm
      | Some spec \<Rightarrow>
          if Some keyLength \<noteq> spec_keyLength spec then Inl KeyLengthMismatch
          else if Some ivLength \<noteq> spec_ivLength spec then Inl IVLengthMismatch
          else Inr ())"

text \<open>The six identifiers the specification supports, with their modes.\<close>

definition cbc_algorithms :: "string list" where
  "cbc_algorithms = [''aes-128-cbc'', ''aes-192-cbc'', ''aes-256-cbc'']"

definition gcm_algorithms :: "string list" where
  "gcm_algorithms = [''aes-128-gcm'', ''aes-192-gcm'', ''aes-256-gcm'']"

definition supported_algorithms :: "string list" where
  "supported_algorithms = cbc_algorithms @ gcm_algorithms"

text \<open>The specification's required lengths: 32/24/16 bytes of key for AES-256/192/128,
  16 bytes of IV for CBC and 12 for GCM.\<close>

definition requiredKeyLength :: "string \<Rightarrow> int" where
  "requiredKeyLength algorithm =
     (if includes_str algorithm ''256'' then 32 else if includes_str algorithm ''192'' then 24 else 16)"

definition requiredIVLength :: "string \<Rightarrow> int" where
  "requiredIVLength algorithm = (if includes_str algorithm ''gcm'' then 12 else 16)"

section \<open>The crypto library and the world it acts on\<close>

text \<open>
  Node's \<^verbatim>\<open>crypto\<close> module is not part of the repository: it is a parameter of the
  model. A cipher object is determined by the algorithm, key and IV it was created with,
  so the operations on it take these three.
  \<^item> \<open>random_source\<close>: the system's random bytes, in the order they are handed out;
  \<^item> \<open>pbkdf2\<close>: \<^verbatim>\<open>pbkdf2Sync(password, salt, iterations, keylen, digest)\<close>;
  \<^item> \<open>cipher_init\<close>: \<^verbatim>\<open>createCipheriv(algorithm, key, iv)\<close>, \<open>None\<close> when it returns;
  \<^item> \<open>cipher_text\<close>: \<^verbatim>\<open>update(text, 'utf8', 'hex') + final('hex')\<close>;
  \<^item> \<open>cipher_tag\<close>: \<^verbatim>\<open>getAuthTag()\<close> after the text was finalised;
  \<^item> \<open>decipher_init\<close>: \<^verbatim>\<open>createDecipheriv(algorithm, key, iv)\<close>;
  \<^item> \<open>decipher_text\<close>: \<^verbatim>\<open>setAuthTag(tag)\<close> when a tag is given, then
    \<^verbatim>\<open>update(encrypted, 'hex', 'utf8') + final('utf8')\<close>.
\<close>

record crypto_lib =
  random_source :: "nat \<Rightarrow> byte"
  pbkdf2 :: "string \<Rightarrow> bytes \<Rightarrow> int \<Rightarrow> int \<Rightarrow> string \<Rightarrow> lib_error + bytes"
  cipher_init :: "string \<Rightarrow> bytes \<Rightarrow> bytes \<Rightarrow> lib_error option"
  cipher_text :: "string \<Rightarrow> bytes \<Rightarrow> bytes \<Rightarrow> string \<Rightarrow> lib_error + string"
  cipher_tag :: "string \<Rightarrow> bytes \<Rightarrow> bytes \<Rightarrow> string \<Rightarrow> bytes"
  decipher_init :: "string \<Rightarrow> bytes \<Rightarrow> bytes \<Rightarrow> lib_error option"
  decipher_text :: "string \<Rightarrow> bytes \<Rightarrow> bytes \<Rightarrow> bytes option \<Rightarrow> string \<Rightarrow> lib_error + string"

text \<open>
  The effects a call leaves behind: how many random bytes were drawn so far, and which
  key derivations and cipher constructions were made, oldest first.
\<close>

datatype lib_call = Pbkdf2Sync | CreateCipheriv | CreateDecipheriv

record world =
  drawn :: nat
  calls :: "lib_call list"

text \<open>\<^verbatim>\<open>crypto.randomBytes(size)\<close>: the next \<open>n\<close> bytes of the source; a size outside
  \<open>0 .. 2^31 - 1\<close> throws.\<close>

definition randomBytes :: "crypto_lib \<Rightarrow> int \<Rightarrow> world \<Rightarrow> (lib_error + bytes) \<times> world" where
  "randomBytes L n w =
     (if 0 \<le> n \<and> n \<le> 2147483647
      then (Inr (map (random_source L) [drawn w ..< drawn w + nat n]),
            w\<lparr>drawn := drawn w + nat n\<rparr>)
      else (Inl OtherLibraryError, w))"

definition pbkdf2Sync ::
  "crypto_lib \<Rightarrow> string \<Rightarrow> bytes \<Rightarrow> int \<Rightarrow> int \<Rightarrow> string \<Rightarrow> world \<Rightarrow> (lib_error + bytes) \<times> world" where
  "pbkdf2Sync L password salt iterations keylen digest w =
     (pbkdf2 L password salt iterations keylen digest, w\<lparr>calls := calls w @ [Pbkdf2Sync]\<rparr>)"

definition createCipheriv ::
  "crypto_lib \<Rightarrow> string \<Rightarrow> bytes \<Rightarrow> bytes \<Rightarrow> world \<Rightarrow> lib_error option \<times> world" where
  "createCipheriv L algorithm key iv w =
     (cipher_init L algorithm key iv, w\<lparr>calls := calls w @ [CreateCipheriv]\<rparr>)"

definition createDecipheriv ::
  "crypto_lib \<Rightarrow> string \<Rightarrow> bytes \<Rightarrow> bytes \<Rightarrow> world \<Rightarrow> lib_error option \<times> world" where
  "createDecipheriv L algorithm key iv w =
     (decipher_init L algorithm key iv, w\<lparr>calls := calls w @ [CreateDecipheriv]\<rparr>)"

section \<open>Key derivation, encryption, decryption\<close>

definition deriveKey ::
  "crypto_lib \<Rightarrow> string \<Rightarrow> bytes \<Rightarrow> int \<Rightarrow> int \<Rightarrow> world \<Rightarrow> (lib_error + bytes) \<times> world" where
  "deriveKey L password salt iterations keyLength w =
     pbkdf2Sync L password salt iterations keyLength ''sha256'' w"

text \<open>
  \<^verbatim>\<open>encrypt\<close>, statement by statement: the emptiness test, the two draws of random
  bytes, the validation, the key derivation, the cipher, and the token assembled by the
  template literal of the branch taken.
\<close>

definition encrypt ::
  "crypto_lib \<Rightarrow> string \<Rightarrow> string \<Rightarrow> int \<Rightarrow> int \<Rightarrow> string \<Rightarrow> int \<Rightarrow> int \<Rightarrow> world
     \<Rightarrow> (error + string) \<times> world" where
  "encrypt L password text saltLength ivLength algorithm iterations keyLength w =
     (if text = [] then (Inl EmptyInput, w)
      else case randomBytes L saltLength w of
        (Inl e, w1) \<Rightarrow> (Inl (LibraryFailure e), w1)
      | (Inr salt, w1) \<Rightarrow>
      (case randomBytes L ivLength w1 of
        (Inl e, w2) \<Rightarrow> (Inl (LibraryFailure e), w2)
      | (Inr iv, w2) \<Rightarrow>
      (case validateAlgorithmParameters algorithm keyLength ivLength of
        Inl e \<Rightarrow> (Inl e, w2)
      | Inr _ \<Rightarrow>
      (case deriveKey L password salt iterations keyLength w2 of
        (Inl e, w3) \<Rightarrow> (Inl (LibraryFailure e), w3)
      | (Inr key, w3) \<Rightarrow>
      (case createCipheriv L algorithm key iv w3 of
        (Some e, w4) \<Rightarrow> (Inl (LibraryFailure e), w4)
      | (None, w4) \<Rightarrow>
      (if includes_str algorithm ''gcm'' then
         (case cipher_text L algorithm key iv text of
            Inl e \<Rightarrow> (Inl (LibraryFailure e), w4)
          | Inr encrypted \<Rightarrow>
              let authTag = cipher_tag L algorithm key iv text in
              (Inr (toString_hex salt @ '':'' @ toString_hex iv @ '':'' @ encrypted
                    @ '':'' @ toString_hex authTag), w4))
       else
         (case cipher_text L algorithm key iv text of
            Inl e \<Rightarrow> (Inl (LibraryFailure e), w4)
          | Inr encrypted \<Rightarrow>
              (Inr (toString_hex salt @ '':'' @ toString_hex iv @ '':'' @ encrypted), w4))))))))"

text \<open>
  \<^verbatim>\<open>decrypt\<close>. The tag is \<^verbatim>\<open>undefined\<close> (\<open>None\<close>) unless there is a fourth field; a
  \<^verbatim>\<open>Buffer\<close> is an object and so is truthy whatever its length, hence \<^verbatim>\<open>!tag\<close> holds
  exactly when the tag is \<^verbatim>\<open>undefined\<close>. On the GCM path the decipher is created before
  the tag is tested.
\<close>

definition decrypt ::
  "crypto_lib \<Rightarrow> string \<Rightarrow> string \<Rightarrow> string \<Rightarrow> int \<Rightarrow> int \<Rightarrow> world \<Rightarrow> (error + string) \<times> world" where
  "decrypt L password encryptedText algorithm iterations keyLength w =
     (let parts = split encryptedText CHR '':'' in
      if length parts < 3 then (Inl MalformedToken, w)
      else
        let salt = Buffer_from_hex (parts ! 0);
            iv = Buffer_from_hex (parts ! 1);
            encrypted = parts ! 2;
            tag = (if length parts > 3 then Some (Buffer_from_hex (parts ! 3)) else None)
        in
        (case validateAlgorithmParameters algorithm keyLength (int (length iv)) of
          Inl e \<Rightarrow> (Inl e, w)
        | Inr _ \<Rightarrow>
        (case deriveKey L password salt iterations keyLength w of
          (Inl e, w1) \<Rightarrow> (Inl (LibraryFailure e), w1)
        | (Inr key, w1) \<Rightarrow>
        (if includes_str algorithm ''gcm'' then
           (case createDecipheriv L algorithm key iv w1 of
              (Some e, w2) \<Rightarrow> (Inl (LibraryFailure e), w2)
            | (None, w2) \<Rightarrow>
              (case tag of
                 None \<Rightarrow> (Inl MissingAuthTag, w2)
               | Some t \<Rightarrow>
                   (case decipher_text L algorithm key iv (Some t) encrypted of
                      Inl e \<Rightarrow> (Inl (LibraryFailure e), w2)
                    | Inr decrypted \<Rightarrow> (Inr decrypted, w2))))
         else
           (case createDecipheriv L algorithm key iv w1 of
              (Some e, w2) \<Rightarrow> (Inl (LibraryFailure e), w2)
            | (None, w2) \<Rightarrow>
              (case decipher_text L algorithm key iv None encrypted of
                 Inl e \<Rightarrow> (Inl (LibraryFailure e), w2)
               | Inr decrypted \<Rightarrow> (Inr decrypted, w2)))))))"

section \<open>What the theorems ask of the library\<close>

text \<open>
  The output encoding \<^verbatim>\<open>'hex'\<close> of a cipher yields lowercase hexadecimal digits.
\<close>

definition hex_output :: "crypto_lib \<Rightarrow> bool" where
  "hex_output L =
     (\<forall>algorithm key iv text encrypted.
        cipher_text L algorithm key iv text = Inr encrypted \<longrightarrow> lowercase_hex encrypted)"



section \<open>A small library to run the model on\<close>

text \<open>
  An executable stand-in for the library, so that the model can be evaluated on concrete
  inputs: its cipher is an exclusive-or with the first key byte, its tag is that byte
  sixteen times, and its deciphering refuses a hexadecimal string of odd length and a tag
  that is not the expected one.
\<close>

definition mask :: "bytes \<Rightarrow> byte" where
  "mask key = (case key of [] \<Rightarrow> 0 | k # _ \<Rightarrow> k)"

definition xor_lib :: crypto_lib where
  "xor_lib =
     \<lparr> random_source = (\<lambda>i. of_nat (7 * i + 3)),
       pbkdf2 = (\<lambda>password salt iterations keylen digest.
          if iterations < 1 \<or> keylen < 0 then Inl OtherLibraryError
          else Inr (map (\<lambda>i. of_nat (i + length password + length salt)) [0 ..< nat keylen])),
       cipher_init = (\<lambda>algorithm key iv. None),
       cipher_text = (\<lambda>algorithm key iv text.
          Inr (toString_hex (map (\<lambda>c. of_char c XOR mask key) text))),
       cipher_tag = (\<lambda>algorithm key iv text. replicate 16 (mask key)),
       decipher_init = (\<lambda>algorithm key iv. None),
       decipher_text = (\<lambda>algorithm key iv tag encrypted.
          if odd (length encrypted) then Inl OtherLibraryError
          else if tag \<noteq> None \<and> tag \<noteq> Some (replicate 16 (mask key))
          then Inl AuthenticationFailed
          else Inr (map (\<lambda>b. char_of (unat (b XOR mask key))) (Buffer_from_hex encrypted))) \<rparr>"

definition w0 :: world where
  "w0 = \<lparr> drawn = 0, calls = [] \<rparr>"

text \<open>The salt and the IV that \<^verbatim>\<open>encrypt\<close> draws when it starts in world \<open>w\<close>.\<close>

definition salt_of :: "crypto_lib \<Rightarrow> int \<Rightarrow> world \<Rightarrow> bytes" where
  "salt_of L saltLength w = map (random_source L) [drawn w ..< drawn w + nat saltLength]"

definition iv_of :: "crypto_lib \<Rightarrow> int \<Rightarrow> int \<Rightarrow> world \<Rightarrow> bytes" where
  "iv_of L saltLength ivLength w =
     map (random_source L) [drawn w + nat saltLength ..< drawn w + nat saltLength + nat ivLength]"

section \<open>Splitting and hexadecimal coding\<close>

lemma split_not_Nil: "split s sep \<noteq> []"
  by (induction s) (auto split: list.splits)

lemma split_no_sep: "sep \<notin> set s \<Longrightarrow> split s sep = [s]"
  by (induction s) auto

lemma split_append_sep: "sep \<notin> set a \<Longrightarrow> split (a @ sep # b) sep = a # split b sep"
  by (induction a) auto

lemma split_parts_no_sep: "p \<in> set (split s sep) \<Longrightarrow> sep \<notin> set p"
  by (induction s arbitrary: p) (auto split: list.splits if_splits)


lemma hex_digit_lower: "n < 16 \<Longrightarrow> hex_digit n \<in> set ''0123456789abcdef''"
proof -
  assume "n < 16"
  then consider "n = 0" | "n = 1" | "n = 2" | "n = 3" | "n = 4" | "n = 5" | "n = 6" | "n = 7"
    | "n = 8" | "n = 9" | "n = 10" | "n = 11" | "n = 12" | "n = 13" | "n = 14" | "n = 15"
    by (atomize_elim, arith)
  then show ?thesis
    by cases (simp_all add: hex_digit_def)
qed

lemma nibble_bounds: "unat (b :: byte) div 16 < 16" "unat b mod 16 < 16"
proof -
  have "unat b < 256" using unsigned_less [of b, where ?'a = nat] by simp
  then show "unat b div 16 < 16" by simp
  show "unat b mod 16 < 16" by simp
qed




lemma split3:
  assumes "sep \<notin> set a" "sep \<notin> set b" "sep \<notin> set c"
  shows "split (a @ sep # b @ sep # c) sep = [a, b, c]"
  using assms by (simp add: split_append_sep split_no_sep)

lemma split4:
  assumes "sep \<notin> set a" "sep \<notin> set b" "sep \<notin> set c" "sep \<notin> set d"
  shows "split (a @ sep # b @ sep # c @ sep # d) sep = [a, b, c, d]"
  using assms by (simp add: split_append_sep split_no_sep)


lemma lowercase_hex_toString_hex: "lowercase_hex (toString_hex buf)"
  by (induction buf) (simp_all add: lowercase_hex_def toString_hex_def hex_digit_lower nibble_bounds del: set_simps)

lemma lowercase_hex_no_colon: "lowercase_hex s \<Longrightarrow> CHR '':'' \<notin> set s"
proof
  assume h: "lowercase_hex s" and c: "CHR '':'' \<in> set s"
  have "\<forall>c \<in> set s. c \<in> set ''0123456789abcdef''"
    using h unfolding lowercase_hex_def list_all_iff .
  with c have "CHR '':'' \<in> set ''0123456789abcdef''" by blast
  then show False by simp
qed

lemma xor_lib_hex_output: "hex_output xor_lib"
  by (simp add: hex_output_def xor_lib_def lowercase_hex_toString_hex)



section \<open>Facts about the validation\<close>

lemma supported_iff:
  "algorithm \<in> set supported_algorithms \<longleftrightarrow>
     algorithm = ''aes-128-cbc'' \<or> algorithm = ''aes-192-cbc'' \<or> algorithm = ''aes-256-cbc'' \<or>
     algorithm = ''aes-128-gcm'' \<or> algorithm = ''aes-192-gcm'' \<or> algorithm = ''aes-256-gcm''"
  by (simp add: supported_algorithms_def cbc_algorithms_def gcm_algorithms_def)

lemma algorithmSpecs_supported:
  assumes "algorithm \<in> set supported_algorithms"
  shows "algorithmSpecs algorithm =
           Some (Spec (requiredKeyLength algorithm) (requiredIVLength algorithm))"
  using assms unfolding supported_iff
  by (elim disjE) (simp_all add: algorithmSpecs_def requiredKeyLength_def requiredIVLength_def)

lemma algorithmSpecs_Spec:
  assumes "algorithmSpecs algorithm = Some (Spec k i)"
  shows "algorithm \<in> set supported_algorithms"
  using assms by (simp add: algorithmSpecs_def supported_iff split: if_splits)

lemma includes_gcm:
  assumes "algorithm \<in> set supported_algorithms"
  shows "includes_str algorithm ''gcm'' \<longleftrightarrow> algorithm \<in> set gcm_algorithms"
  using assms unfolding supported_iff
  by (elim disjE) (simp_all add: gcm_algorithms_def)


lemma validate_Inr_iff:
  "validateAlgorithmParameters algorithm keyLength ivLength = Inr u \<longleftrightarrow>
     algorithm \<in> set supported_algorithms \<and> keyLength = requiredKeyLength algorithm
     \<and> ivLength = requiredIVLength algorithm"
proof (cases "algorithm \<in> set supported_algorithms")
  case True
  then show ?thesis
    by (auto simp: validateAlgorithmParameters_def algorithmSpecs_supported)
next
  case False
  then have "\<And>k i. algorithmSpecs algorithm \<noteq> Some (Spec k i)"
    using algorithmSpecs_Spec by blast
  then have "algorithmSpecs algorithm = None \<or> algorithmSpecs algorithm = Some Inherited"
    by (metis option.exhaust spec_entry.exhaust)
  with False show ?thesis
    by (auto simp: validateAlgorithmParameters_def)
qed

section \<open>What a successful encryption did\<close>

lemma encrypt_InrE:
  assumes "encrypt L password text saltLength ivLength algorithm iterations keyLength w = (Inr token, w')"
  obtains key encrypted where
    "text \<noteq> []"
    "0 \<le> saltLength" "0 \<le> ivLength"
    "algorithm \<in> set supported_algorithms"
    "keyLength = requiredKeyLength algorithm"
    "ivLength = requiredIVLength algorithm"
    "pbkdf2 L password (salt_of L saltLength w) iterations keyLength ''sha256'' = Inr key"
    "cipher_init L algorithm key (iv_of L saltLength ivLength w) = None"
    "cipher_text L algorithm key (iv_of L saltLength ivLength w) text = Inr encrypted"
    "token = toString_hex (salt_of L saltLength w) @ '':'' @
             toString_hex (iv_of L saltLength ivLength w) @ '':'' @ encrypted @
             (if algorithm \<in> set gcm_algorithms
              then '':'' @ toString_hex (cipher_tag L algorithm key (iv_of L saltLength ivLength w) text)
              else [])"
proof -
  from assms have t: "text \<noteq> []"
    by (auto simp: encrypt_def)
  from assms t have s: "0 \<le> saltLength \<and> saltLength \<le> 2147483647"
    by (auto simp: encrypt_def randomBytes_def split: if_splits)
  from assms t s have i: "0 \<le> ivLength \<and> ivLength \<le> 2147483647"
    by (auto simp: encrypt_def randomBytes_def split: if_splits)
  from assms t s i obtain u where v: "validateAlgorithmParameters algorithm keyLength ivLength = Inr u"
    by (auto simp: encrypt_def randomBytes_def split: sum.splits)
  then have sup: "algorithm \<in> set supported_algorithms"
    and k: "keyLength = requiredKeyLength algorithm" and iv: "ivLength = requiredIVLength algorithm"
    by (simp_all add: validate_Inr_iff)
  from assms t s i v obtain key where
    key: "pbkdf2 L password (salt_of L saltLength w) iterations keyLength ''sha256'' = Inr key"
    by (auto simp: encrypt_def randomBytes_def deriveKey_def pbkdf2Sync_def salt_of_def
        split: sum.splits)
  from assms t s i v key have
    ci: "cipher_init L algorithm key (iv_of L saltLength ivLength w) = None"
    by (auto simp: encrypt_def randomBytes_def deriveKey_def pbkdf2Sync_def salt_of_def iv_of_def
        createCipheriv_def split: option.splits)
  from assms t s i v key ci obtain encrypted where
    ct: "cipher_text L algorithm key (iv_of L saltLength ivLength w) text = Inr encrypted"
    by (auto simp: encrypt_def randomBytes_def deriveKey_def pbkdf2Sync_def salt_of_def iv_of_def
        createCipheriv_def split: sum.splits if_splits)
  from assms t s i v key ci ct have
    "token = toString_hex (salt_of L saltLength w) @ '':'' @
             toString_hex (iv_of L saltLength ivLength w) @ '':'' @ encrypted @
             (if algorithm \<in> set gcm_algorithms
              then '':'' @ toString_hex (cipher_tag L algorithm key (iv_of L saltLength ivLength w) text)
              else [])"
    by (auto simp: encrypt_def randomBytes_def deriveKey_def pbkdf2Sync_def salt_of_def iv_of_def
        createCipheriv_def includes_gcm [OF sup] split: if_splits)
  with t s i sup k iv key ci ct show thesis
    using that by blast
qed

text \<open>Conversely, these conditions are all that a token needs.\<close>

lemma encrypt_succeeds:
  assumes "text \<noteq> []"
    and "0 \<le> saltLength" "saltLength \<le> 2147483647"
    and "algorithm \<in> set supported_algorithms"
    and "keyLength = requiredKeyLength algorithm"
    and "ivLength = requiredIVLength algorithm"
    and "pbkdf2 L password (salt_of L saltLength w) iterations keyLength ''sha256'' = Inr key"
    and "cipher_init L algorithm key (iv_of L saltLength ivLength w) = None"
    and "cipher_text L algorithm key (iv_of L saltLength ivLength w) text = Inr encrypted"
  shows "\<exists>token w'. encrypt L password text saltLength ivLength algorithm iterations keyLength w
           = (Inr token, w')"
proof -
  have iv: "0 \<le> ivLength \<and> ivLength \<le> 2147483647"
    using assms(6) by (simp add: requiredIVLength_def)
  have v: "validateAlgorithmParameters algorithm (requiredKeyLength algorithm)
             (requiredIVLength algorithm) = Inr ()"
    using assms(4) by (simp add: validate_Inr_iff)
  show ?thesis
    using assms iv
    by (simp add: encrypt_def randomBytes_def v deriveKey_def pbkdf2Sync_def createCipheriv_def
        salt_of_def iv_of_def)
qed

section \<open>Decryption after the token is parsed\<close>



section \<open>Decryption, field by field\<close>


lemma decrypt_validation_fails:
  assumes "3 \<le> length (split token CHR '':'')"
    and "validateAlgorithmParameters algorithm keyLength
           (int (length (Buffer_from_hex (split token CHR '':'' ! 1)))) = Inl e"
  shows "decrypt L password token algorithm iterations keyLength w = (Inl e, w)"
  using assms by (simp add: decrypt_def Let_def)

lemma validate_not_malformed:
  "validateAlgorithmParameters algorithm keyLength ivLength \<noteq> Inl MalformedToken"
  by (simp add: validateAlgorithmParameters_def split: option.splits)

lemma decrypt_not_malformed:
  assumes "3 \<le> length (split token CHR '':'')"
  shows "fst (decrypt L password token algorithm iterations keyLength w) \<noteq> Inl MalformedToken"
proof (cases "validateAlgorithmParameters algorithm keyLength
                (int (length (Buffer_from_hex (split token CHR '':'' ! 1))))")
  case (Inl e)
  then have "e \<noteq> MalformedToken"
    using validate_not_malformed by metis
  with decrypt_validation_fails [OF assms Inl] show ?thesis
    by simp
next
  case (Inr u)
  with assms show ?thesis
    by (simp add: decrypt_def Let_def deriveKey_def pbkdf2Sync_def createDecipheriv_def
        split: sum.splits option.splits)
qed

lemma decrypt_no_gcm:
  assumes "\<not> includes_str algorithm ''gcm''"
    and "split token CHR '':'' = a # b # c # rest"
  shows "decrypt L password token algorithm iterations keyLength w =
         decrypt L password (a @ '':'' @ b @ '':'' @ c) algorithm iterations keyLength w"
proof -
  have "a \<in> set (split token CHR '':'')" "b \<in> set (split token CHR '':'')"
    "c \<in> set (split token CHR '':'')"
    by (simp_all add: assms(2))
  then have "CHR '':'' \<notin> set a" "CHR '':'' \<notin> set b" "CHR '':'' \<notin> set c"
    by (blast dest: split_parts_no_sep)+
  then have s: "split (a @ CHR '':'' # b @ CHR '':'' # c) CHR '':'' = [a, b, c]"
    by (rule split3)
  show ?thesis
    using assms(1)
    by (simp add: decrypt_def s assms(2) Let_def split: sum.splits prod.splits)
qed

section \<open>The validation on every name\<close>

lemma validate_inherited:
  assumes "algorithm \<in> set Object_prototype_names"
  shows "validateAlgorithmParameters algorithm keyLength ivLength = Inl KeyLengthMismatch"
proof -
  from assms have "algorithm \<notin> set supported_algorithms"
    by (auto simp: Object_prototype_names_def supported_iff)
  with assms have "algorithmSpecs algorithm = Some Inherited"
    by (simp add: algorithmSpecs_def supported_iff)
  then show ?thesis
    by (simp add: validateAlgorithmParameters_def)
qed

lemma validate_spec:
  assumes "algorithm \<notin> set Object_prototype_names"
  shows "validateAlgorithmParameters algorithm keyLength ivLength =
           (if algorithm \<notin> set supported_algorithms then Inl InvalidAlgorithm
            else if keyLength \<noteq> requiredKeyLength algorithm then Inl KeyLengthMismatch
            else if ivLength \<noteq> requiredIVLength algorithm then Inl IVLengthMismatch
            else Inr ())"
proof (cases "algorithm \<in> set supported_algorithms")
  case True
  then show ?thesis
    by (simp add: validateAlgorithmParameters_def algorithmSpecs_supported)
next
  case False
  then have "algorithmSpecs algorithm = None"
    using assms by (simp add: algorithmSpecs_def supported_iff)
  with False show ?thesis
    by (simp add: validateAlgorithmParameters_def)
qed

section \<open>The claims\<close>



text \<open>
  C2 (key length mismatch), as the code has it. Let the algorithm be supported and
  \<open>keyLength\<close> differ from the length it requires. Then \<^verbatim>\<open>encrypt\<close> of a non-empty
  plaintext, with salt and IV lengths that \<^verbatim>\<open>randomBytes\<close> accepts, fails with
  \<open>KeyLengthMismatch\<close> after it has drawn \<open>saltLength + ivLength\<close> random bytes and
  before any key is derived or cipher constructed; and \<^verbatim>\<open>decrypt\<close> of a token of at
  least three fields fails with \<open>KeyLengthMismatch\<close> in an unchanged world: no random byte
  drawn, no key derived, no decipher constructed.
\<close>

theorem keyLength_mismatch:
  assumes "algorithm \<in> set supported_algorithms"
    and "keyLength \<noteq> requiredKeyLength algorithm"
  shows "(text \<noteq> [] \<and> 0 \<le> saltLength \<and> saltLength \<le> 2147483647
            \<and> 0 \<le> ivLength \<and> ivLength \<le> 2147483647 \<longrightarrow>
          encrypt L password text saltLength ivLength algorithm iterations keyLength w =
            (Inl KeyLengthMismatch, w\<lparr>drawn := drawn w + nat saltLength + nat ivLength\<rparr>))
       \<and> (3 \<le> length (split token CHR '':'') \<longrightarrow>
          decrypt L password token algorithm iterations keyLength w = (Inl KeyLengthMismatch, w))"
proof -
  have v: "\<And>ivl. validateAlgorithmParameters algorithm keyLength ivl = Inl KeyLengthMismatch"
    using assms by (simp add: validateAlgorithmParameters_def algorithmSpecs_supported)
  show ?thesis
    by (simp add: encrypt_def randomBytes_def v decrypt_validation_fails)
qed

theorem keyLength_mismatch_witness:
  "encrypt xor_lib ''correct-horse'' ''hello world'' 32 16 ''aes-256-cbc'' 100000 16 w0 =
     (Inl KeyLengthMismatch, w0\<lparr>drawn := drawn w0 + nat 32 + nat 16\<rparr>)
   \<and> decrypt xor_lib ''correct-horse'' ''00:00:00'' ''aes-256-cbc'' 100000 16 w0 =
     (Inl KeyLengthMismatch, w0)"
proof -
  have a: "''aes-256-cbc'' \<in> set supported_algorithms"
    by (simp add: supported_iff)
  have b: "(16 :: int) \<noteq> requiredKeyLength ''aes-256-cbc''"
    by (simp add: requiredKeyLength_def)
  have c: "3 \<le> length (split ''00:00:00'' CHR '':'')"
    by simp
  from keyLength_mismatch [OF a b, of "''hello world''" 32 16 xor_lib "''correct-horse''"
      100000 w0 "''00:00:00''"] c
  show ?thesis by simp
qed

text \<open>
  The encoder draws its salt and IV before it validates: on a mismatched key length 48
  random bytes are gone when the error is raised. An empty plaintext, a salt length that
  \<^verbatim>\<open>randomBytes\<close> refuses and a token of two fields are each rejected with their own
  error before the key length is looked at.
\<close>

theorem keyLength_mismatch_counterexample:
  "requiredKeyLength ''aes-256-cbc'' = 32
   \<and> drawn w0 = 0
   \<and> encrypt xor_lib ''correct-horse'' ''hello world'' 32 16 ''aes-256-cbc'' 100000 16 w0 =
       (Inl KeyLengthMismatch, \<lparr>drawn = 48, calls = []\<rparr>)
   \<and> encrypt xor_lib ''correct-horse'' '''' 32 16 ''aes-256-cbc'' 100000 16 w0 =
       (Inl EmptyInput, w0)
   \<and> encrypt xor_lib ''correct-horse'' ''hello world'' (- 1) 16 ''aes-256-cbc'' 100000 16 w0 =
       (Inl (LibraryFailure OtherLibraryError), w0)
   \<and> decrypt xor_lib ''correct-horse'' ''00:00'' ''aes-256-cbc'' 100000 16 w0 =
       (Inl MalformedToken, w0)"
  by code_simp

text \<open>
  C3 (validation). The name \<^verbatim>\<open>constructor\<close> is none of the six supported identifiers,
  yet the lookup \<^verbatim>\<open>algorithmSpecs['constructor']\<close> finds the property inherited from
  \<^verbatim>\<open>Object.prototype\<close>, the test \<^verbatim>\<open>!spec\<close> does not fire, and the validation fails with
  the key-length error instead of \<open>InvalidAlgorithm\<close>. For every name that is not a
  property of \<^verbatim>\<open>Object.prototype\<close> the validation is as specified (\<open>validate_spec\<close>).
\<close>

theorem validate_constructor:
  "''constructor'' \<notin> set supported_algorithms \<and>
   validateAlgorithmParameters ''constructor'' 32 16 = Inl KeyLengthMismatch"
  by (simp add: supported_iff validate_inherited Object_prototype_names_def)




text \<open>
  C5 (token format). A token that \<^verbatim>\<open>encrypt\<close> returns splits at the colons into the
  hexadecimal salt, the hexadecimal IV, the ciphertext and, exactly for a GCM algorithm,
  the hexadecimal authentication tag, in this order: four fields for GCM, three for CBC,
  each a string of lowercase hexadecimal digits. The salt and the IV are the
  \<open>saltLength\<close> and \<open>ivLength\<close> random bytes drawn. The library is asked that a cipher's
  \<^verbatim>\<open>'hex'\<close> output is lowercase hexadecimal.
\<close>

theorem token_format:
  assumes hex: "hex_output L"
    and enc: "encrypt L password text saltLength ivLength algorithm iterations keyLength w
                = (Inr token, w')"
  shows "\<exists>key encrypted.
           pbkdf2 L password (salt_of L saltLength w) iterations keyLength ''sha256'' = Inr key
         \<and> cipher_text L algorithm key (iv_of L saltLength ivLength w) text = Inr encrypted
         \<and> split token CHR '':'' =
             (if algorithm \<in> set gcm_algorithms
              then [toString_hex (salt_of L saltLength w),
                    toString_hex (iv_of L saltLength ivLength w),
                    encrypted,
                    toString_hex (cipher_tag L algorithm key (iv_of L saltLength ivLength w) text)]
              else [toString_hex (salt_of L saltLength w),
                    toString_hex (iv_of L saltLength ivLength w),
                    encrypted])
         \<and> list_all lowercase_hex (split token CHR '':'')
         \<and> length (split token CHR '':'') = (if algorithm \<in> set gcm_algorithms then 4 else 3)
         \<and> (algorithm \<in> set gcm_algorithms) \<noteq> (algorithm \<in> set cbc_algorithms)
         \<and> length (salt_of L saltLength w) = nat saltLength
         \<and> length (iv_of L saltLength ivLength w) = nat ivLength"
proof -
  define salt where "salt = salt_of L saltLength w"
  define iv where "iv = iv_of L saltLength ivLength w"
  from enc obtain key encrypted where
    sup: "algorithm \<in> set supported_algorithms"
    and key: "pbkdf2 L password salt iterations keyLength ''sha256'' = Inr key"
    and ct: "cipher_text L algorithm key iv text = Inr encrypted"
    and tok: "token = toString_hex salt @ '':'' @ toString_hex iv @ '':'' @ encrypted @
               (if algorithm \<in> set gcm_algorithms
                then '':'' @ toString_hex (cipher_tag L algorithm key iv text) else [])"
    unfolding salt_def iv_def by (rule encrypt_InrE)
  from hex ct have lh: "lowercase_hex encrypted"
    unfolding hex_output_def by blast
  then have nc: "CHR '':'' \<notin> set encrypted"
    by (rule lowercase_hex_no_colon)
  have nh: "\<And>buf. CHR '':'' \<notin> set (toString_hex buf)"
    by (rule lowercase_hex_no_colon) (rule lowercase_hex_toString_hex)
  have parts: "split token CHR '':'' =
      (if algorithm \<in> set gcm_algorithms
       then [toString_hex salt, toString_hex iv, encrypted,
             toString_hex (cipher_tag L algorithm key iv text)]
       else [toString_hex salt, toString_hex iv, encrypted])"
    using tok by (simp add: split3 split4 nc nh)
  have all: "list_all lowercase_hex (split token CHR '':'')"
    unfolding parts by (simp add: lh lowercase_hex_toString_hex)
  have len: "length (split token CHR '':'') = (if algorithm \<in> set gcm_algorithms then 4 else 3)"
    unfolding parts by simp
  have mode: "(algorithm \<in> set gcm_algorithms) \<noteq> (algorithm \<in> set cbc_algorithms)"
    using sup unfolding supported_iff
    by (elim disjE) (simp_all add: gcm_algorithms_def cbc_algorithms_def)
  have ls: "length salt = nat saltLength" and li: "length iv = nat ivLength"
    by (simp_all add: salt_def iv_def salt_of_def iv_of_def)
  from key ct parts all len mode ls li show ?thesis
    unfolding salt_def iv_def by blast
qed

theorem token_format_witness:
  "split ''030a11181f262d343b424950575e656c737a81888f969da4abb2b9c0c7ced5dc:e3eaf1f8ff060d141b222930:45484141420d5a425f4149:2d2d2d2d2d2d2d2d2d2d2d2d2d2d2d2d'' CHR '':'' =
     [''030a11181f262d343b424950575e656c737a81888f969da4abb2b9c0c7ced5dc'',
      ''e3eaf1f8ff060d141b222930'', ''45484141420d5a425f4149'',
      ''2d2d2d2d2d2d2d2d2d2d2d2d2d2d2d2d'']
   \<and> list_all lowercase_hex
       (split ''030a11181f262d343b424950575e656c737a81888f969da4abb2b9c0c7ced5dc:e3eaf1f8ff060d141b222930:45484141420d5a425f4149:2d2d2d2d2d2d2d2d2d2d2d2d2d2d2d2d'' CHR '':'')
   \<and> length (salt_of xor_lib 32 w0) = 32"
proof -
  have e: "encrypt xor_lib ''correct-horse'' ''hello world'' 32 12 ''aes-256-gcm'' 100000 32 w0 =
     (Inr ''030a11181f262d343b424950575e656c737a81888f969da4abb2b9c0c7ced5dc:e3eaf1f8ff060d141b222930:45484141420d5a425f4149:2d2d2d2d2d2d2d2d2d2d2d2d2d2d2d2d'',
      \<lparr>drawn = 44, calls = [Pbkdf2Sync, CreateCipheriv]\<rparr>)"
    by code_simp
  have s: "split ''030a11181f262d343b424950575e656c737a81888f969da4abb2b9c0c7ced5dc:e3eaf1f8ff060d141b222930:45484141420d5a425f4149:2d2d2d2d2d2d2d2d2d2d2d2d2d2d2d2d'' CHR '':'' =
     [''030a11181f262d343b424950575e656c737a81888f969da4abb2b9c0c7ced5dc'',
      ''e3eaf1f8ff060d141b222930'', ''45484141420d5a425f4149'',
      ''2d2d2d2d2d2d2d2d2d2d2d2d2d2d2d2d'']"
    by code_simp
  from token_format [OF xor_lib_hex_output e] s
  show ?thesis by auto
qed

text \<open>
  C6 (IV length mismatch), as the code has it. \<^verbatim>\<open>decrypt\<close> decodes the IV from the
  second field and validates against the number of bytes decoded. For a token of at least
  three fields, a supported algorithm and the key length it requires, a decoded IV of any
  other length than the required one makes \<^verbatim>\<open>decrypt\<close> fail with \<open>IVLengthMismatch\<close> in
  an unchanged world: no key was derived and no decipher constructed.
\<close>

theorem ivLength_mismatch:
  assumes "3 \<le> length (split token CHR '':'')"
    and "algorithm \<in> set supported_algorithms"
    and "keyLength = requiredKeyLength algorithm"
    and "int (length (Buffer_from_hex (split token CHR '':'' ! 1))) \<noteq> requiredIVLength algorithm"
  shows "decrypt L password token algorithm iterations keyLength w = (Inl IVLengthMismatch, w)"
proof -
  have "validateAlgorithmParameters algorithm keyLength
          (int (length (Buffer_from_hex (split token CHR '':'' ! 1)))) = Inl IVLengthMismatch"
    using assms by (simp add: validateAlgorithmParameters_def algorithmSpecs_supported)
  with assms(1) show ?thesis
    by (rule decrypt_validation_fails)
qed

theorem ivLength_mismatch_witness:
  "decrypt xor_lib ''correct-horse'' ''00:00:00'' ''aes-256-cbc'' 100000 32 w0 =
     (Inl IVLengthMismatch, w0)"
proof -
  have a: "3 \<le> length (split ''00:00:00'' CHR '':'')"
    by simp
  have b: "''aes-256-cbc'' \<in> set supported_algorithms"
    by (simp add: supported_iff)
  have c: "(32 :: int) = requiredKeyLength ''aes-256-cbc''"
    by (simp add: requiredKeyLength_def)
  have d: "int (length (Buffer_from_hex (split ''00:00:00'' CHR '':'' ! 1)))
             \<noteq> requiredIVLength ''aes-256-cbc''"
    by (simp add: requiredIVLength_def unhex_def)
  show ?thesis
    by (rule ivLength_mismatch [OF a b c d])
qed

text \<open>
  The key length is compared first, and the number of fields before that: a token whose
  decoded IV has one byte fails with \<open>KeyLengthMismatch\<close> when the key length is wrong as
  well, and a token of two fields fails with \<open>MalformedToken\<close>.
\<close>

theorem ivLength_mismatch_counterexample:
  "requiredIVLength ''aes-256-cbc'' = 16
   \<and> split ''00:00:00'' CHR '':'' = [''00'', ''00'', ''00'']
   \<and> Buffer_from_hex ''00'' = [0]
   \<and> decrypt xor_lib ''correct-horse'' ''00:00:00'' ''aes-256-cbc'' 100000 16 w0 =
       (Inl KeyLengthMismatch, w0)
   \<and> split ''00:00'' CHR '':'' = [''00'', ''00'']
   \<and> decrypt xor_lib ''correct-horse'' ''00:00'' ''aes-256-cbc'' 100000 32 w0 =
       (Inl MalformedToken, w0)"
  by code_simp

text \<open>
  C7 (empty input). With an empty plaintext \<^verbatim>\<open>encrypt\<close> fails with \<open>EmptyInput\<close>,
  whatever the password and the parameters; it returns no token and leaves the world as it
  found it (no random byte drawn, no library call made).
\<close>

theorem encrypt_empty_text:
  "encrypt L password [] saltLength ivLength algorithm iterations keyLength w = (Inl EmptyInput, w)"
  by (simp add: encrypt_def)

theorem encrypt_empty_text_witness:
  "encrypt xor_lib ''correct-horse'' '''' 32 12 ''aes-256-gcm'' 100000 32 w0 = (Inl EmptyInput, w0)"
  by (rule encrypt_empty_text)



text \<open>
  C10 (extra fields on the CBC path). For a CBC algorithm, a token of four or more fields
  is not rejected as malformed, and \<^verbatim>\<open>decrypt\<close> returns for it, result and world, what
  it returns for the first three fields joined by colons: the fourth field is decoded as
  a tag that the CBC branch never reads, and later fields are never read at all.
\<close>

theorem cbc_extra_fields_ignored:
  assumes "algorithm \<in> set cbc_algorithms"
    and "4 \<le> length (split token CHR '':'')"
  shows "decrypt L password token algorithm iterations keyLength w =
           decrypt L password
             (split token CHR '':'' ! 0 @ '':'' @ split token CHR '':'' ! 1 @ '':'' @
              split token CHR '':'' ! 2)
             algorithm iterations keyLength w
         \<and> fst (decrypt L password token algorithm iterations keyLength w) \<noteq> Inl MalformedToken"
proof -
  from assms(2) have "Suc (Suc (Suc (Suc 0))) \<le> length (split token CHR '':'')"
    by simp
  then obtain a b c d rest where parts: "split token CHR '':'' = a # b # c # d # rest"
    by (auto simp: Suc_le_length_iff)
  from assms(1) have ng: "\<not> includes_str algorithm ''gcm''"
    by (auto simp: cbc_algorithms_def)
  from assms(2) have "3 \<le> length (split token CHR '':'')"
    by simp
  then have "fst (decrypt L password token algorithm iterations keyLength w) \<noteq> Inl MalformedToken"
    by (rule decrypt_not_malformed)
  with decrypt_no_gcm [OF ng parts, of L password iterations keyLength w] show ?thesis
    by (simp add: parts)
qed

theorem cbc_extra_fields_ignored_witness:
  "decrypt xor_lib ''correct-horse''
     ''030a:e3eaf1f8ff060d141b222930373e454c:45484141420d5a425f4149:zz:more''
     ''aes-256-cbc'' 100000 32 w0 =
   decrypt xor_lib ''correct-horse''
     ''030a:e3eaf1f8ff060d141b222930373e454c:45484141420d5a425f4149''
     ''aes-256-cbc'' 100000 32 w0
   \<and> fst (decrypt xor_lib ''correct-horse''
     ''030a:e3eaf1f8ff060d141b222930373e454c:45484141420d5a425f4149:zz:more''
     ''aes-256-cbc'' 100000 32 w0) \<noteq> Inl MalformedToken"
proof -
  have a: "''aes-256-cbc'' \<in> set cbc_algorithms"
    by (simp add: cbc_algorithms_def)
  have s: "split ''030a:e3eaf1f8ff060d141b222930373e454c:45484141420d5a425f4149:zz:more'' CHR '':'' =
      [''030a'', ''e3eaf1f8ff060d141b222930373e454c'', ''45484141420d5a425f4149'', ''zz'', ''more'']"
    by code_simp
  have b: "4 \<le> length (split
      ''030a:e3eaf1f8ff060d141b222930373e454c:45484141420d5a425f4149:zz:more'' CHR '':'')"
    unfolding s by simp
  note t = cbc_extra_fields_ignored [OF a b, of xor_lib "''correct-horse''" 100000 32 w0]
  from t [THEN conjunct1] have e: "decrypt xor_lib ''correct-horse''
     ''030a:e3eaf1f8ff060d141b222930373e454c:45484141420d5a425f4149:zz:more''
     ''aes-256-cbc'' 100000 32 w0 =
   decrypt xor_lib ''correct-horse''
     ''030a:e3eaf1f8ff060d141b222930373e454c:45484141420d5a425f4149''
     ''aes-256-cbc'' 100000 32 w0"
    unfolding s by simp
  from e t [THEN conjunct2] show ?thesis
    by (rule conjI)
qed

end
